theory Spec2Isabelle
  imports Complex_Main "HOL-Library.Product_Lexorder"
begin

section \<open>Conventions of the embedding\<close>

text \<open>
  The two scripts \<^verbatim>\<open>mapbiomas_csv.py\<close> and
  \<^verbatim>\<open>mapbiomas_mudancas_grafico_animado.py\<close> are embedded function by function.

  \<^item> A raster band (\<^verbatim>\<open>src.read(1)\<close>, a 2-D integer array) is a list of rows of
    \<open>int\<close>; \<^verbatim>\<open>np.unique\<close> works on the flattened array.
  \<^item> Pixel counts are \<open>nat\<close> (numpy's \<^verbatim>\<open>int64\<close> counts of one array never wrap).
  \<^item> Percentages and frame years are \<^verbatim>\<open>float64\<close> in the source. They are embedded as
    exact rationals (\<open>rat\<close>): the arithmetic expressions are the source's, the IEEE
    rounding of each operation is not modelled.
  \<^item> A Python \<^verbatim>\<open>str\<close> is a list of code points; every code point the scripts use is
    below 256 and is one \<open>char\<close> (\<^verbatim>\<open>U+00E3\<close> is \<open>CHR 0xE3\<close>).
  \<^item> Every exception of the source is a value \<open>Inl e\<close> of a sum type.
  \<^item> The console (\<^verbatim>\<open>print\<close>) is a list of notices, oldest first.
\<close>

section \<open>Library primitives the scripts call\<close>

datatype exn =
  FileNotFoundError
  | JSONDecodeError
  | RasterioIOError
  | IndexError
  | KeyError

text \<open>\<^verbatim>\<open>str(i)\<close> for a Python integer: decimal digits, a leading minus sign.\<close>

fun digits :: "nat \<Rightarrow> string" where
  "digits n =
     (if n < 10 then [''0123456789'' ! n]
      else digits (n div 10) @ [''0123456789'' ! (n mod 10)])"

declare digits.simps [simp del]

definition str :: "int \<Rightarrow> string" where
  "str i = (if i < 0 then ''-'' @ digits (nat (- i)) else digits (nat i))"

text \<open>
  \<^verbatim>\<open>np.unique(a, return_counts=True)\<close>: the distinct values of the flattened array in
  ascending order, each with the number of its occurrences.
\<close>

definition np_unique :: "int list list \<Rightarrow> (int \<times> nat) list" where
  "np_unique raster_data =
     map (\<lambda>v. (v, count_list (concat raster_data) v)) (sort (remdups (concat raster_data)))"

text \<open>
  \<^verbatim>\<open>df.head(n)\<close>: the first \<open>n\<close> rows; for a negative \<open>n\<close> all rows but the last
  \<open>-n\<close>.
\<close>

definition head :: "int \<Rightarrow> 'a list \<Rightarrow> 'a list" where
  "head n xs = (if 0 \<le> n then take (nat n) xs else take (length xs - nat (- n)) xs)"

text \<open>
  \<^verbatim>\<open>df.sort_values(col, ascending=False)\<close>. The source leaves the order of rows with
  equal keys to pandas' default sorting algorithm; the embedding keeps them in their
  previous order.
\<close>

definition sort_values_desc :: "('a \<Rightarrow> 'k::{linorder, uminus}) \<Rightarrow> 'a list \<Rightarrow> 'a list" where
  "sort_values_desc col df = sort_key (\<lambda>r. - col r) df"

text \<open>\<^verbatim>\<open>int(x)\<close> for a float: truncation towards zero.\<close>

definition py_int :: "rat \<Rightarrow> int" where
  "py_int x = (if 0 \<le> x then \<lfloor>x\<rfloor> else \<lceil>x\<rceil>)"

section \<open>The file system and the legend\<close>

record legend_entry =
  PT :: string
  HEX_COL :: string

type_synonym legend = "string \<rightharpoonup> legend_entry"

text \<open>
  A file is a readable single-band integer raster, a JSON document of the legend's fixed
  shape (already parsed), or anything else. A path that is not in the file system does
  not exist.
\<close>

datatype file_content =
  RasterFile "int list list"
  | LegendFile legend
  | OtherFile

type_synonym filesystem = "string \<rightharpoonup> file_content"

datatype notice =
  LegendLoadFailed exn
  | FileNotFound string
  | ProcessingYear int
  | YearProcessed int nat
  | ClassesFound nat
  | TopClasses "string list"
  | YearFailed int exn
  | CsvSaved
  | NoDataProcessed

text \<open>\<^verbatim>\<open>open(json_path)\<close> followed by \<^verbatim>\<open>json.load\<close>.\<close>

definition json_load :: "filesystem \<Rightarrow> string \<Rightarrow> exn + legend" where
  "json_load fs json_path =
     (case fs json_path of
        None \<Rightarrow> Inl FileNotFoundError
      | Some (LegendFile legend_data) \<Rightarrow> Inr legend_data
      | Some _ \<Rightarrow> Inl JSONDecodeError)"

text \<open>\<^verbatim>\<open>rasterio.open(raster_path)\<close> followed by \<^verbatim>\<open>src.read(1)\<close>.\<close>

definition rasterio_read :: "filesystem \<Rightarrow> string \<Rightarrow> exn + int list list" where
  "rasterio_read fs raster_path =
     (case fs raster_path of
        Some (RasterFile raster_data) \<Rightarrow> Inr raster_data
      | _ \<Rightarrow> Inl RasterioIOError)"

text \<open>
  \<^verbatim>\<open>load_legend\<close> (the same in both scripts): the legend, or the empty dictionary and a
  printed error on any exception. It returns the console output with the dictionary.
\<close>

definition load_legend :: "filesystem \<Rightarrow> string \<Rightarrow> notice list \<times> legend" where
  "load_legend fs json_path =
     (case json_load fs json_path of
        Inr legend_data \<Rightarrow> ([], legend_data)
      | Inl e \<Rightarrow> ([LegendLoadFailed e], Map.empty))"

section \<open>Raster tabulation\<close>

text \<open>Lines 41 to 49 of the CSV script, 62 to 70 of the chart script.\<close>

definition counts_filtered :: "int list list \<Rightarrow> (int \<times> nat) list" where
  "counts_filtered raster_data = filter (\<lambda>(u, c). u \<noteq> 0) (np_unique raster_data)"

definition total_pixels :: "int list list \<Rightarrow> nat" where
  "total_pixels raster_data = sum_list (map snd (counts_filtered raster_data))"

text \<open>
  \<^verbatim>\<open>(count / total_pixels) * 100\<close>, evaluated once per remaining class only. With no
  remaining class the comprehension is empty and nothing is divided.
\<close>

definition percentage :: "nat \<Rightarrow> nat \<Rightarrow> rat" where
  "percentage cnt total_px = (of_nat cnt / of_nat total_px) * 100"

subsection \<open>The CSV script\<close>

record csv_row =
  ano :: int
  classe :: int
  num_px :: nat
  porc_rel :: rat

definition process_raster_for_csv ::
  "filesystem \<Rightarrow> string \<Rightarrow> int \<Rightarrow> legend \<Rightarrow> exn + csv_row list" where
  "process_raster_for_csv fs raster_path yr legend_data =
     (case rasterio_read fs raster_path of
        Inl e \<Rightarrow> Inl e
      | Inr raster_data \<Rightarrow>
          Inr (sort_values_desc (\<lambda>r. int (num_px r))
                 (map (\<lambda>(u, c). \<lparr>ano = yr, classe = u, num_px = c,
                                  porc_rel = percentage c (total_pixels raster_data)\<rparr>)
                      (counts_filtered raster_data))))"

subsection \<open>The chart script\<close>

record year_row =
  classe_y :: int
  cont_px :: nat
  porcent_y :: rat
  nome_pt_y :: string
  cor_hex_y :: string

definition placeholder_name :: "int \<Rightarrow> string" where
  "placeholder_name code = ''Classe '' @ str code @ '' (n'' @ [CHR 0xE3] @ ''o encontrada)''"

definition legend_name :: "legend \<Rightarrow> int \<Rightarrow> string" where
  "legend_name legend_data code =
     (case legend_data (str code) of
        Some e \<Rightarrow> PT e
      | None \<Rightarrow> placeholder_name code)"

definition legend_color :: "legend \<Rightarrow> int \<Rightarrow> string" where
  "legend_color legend_data code =
     (case legend_data (str code) of
        Some e \<Rightarrow> HEX_COL e
      | None \<Rightarrow> ''#808080'')"

definition read_raster_and_get_value_counts ::
  "filesystem \<Rightarrow> string \<Rightarrow> legend \<Rightarrow> exn + year_row list" where
  "read_raster_and_get_value_counts fs raster_path legend_data =
     (case rasterio_read fs raster_path of
        Inl e \<Rightarrow> Inl e
      | Inr raster_data \<Rightarrow>
          Inr (sort_values_desc (\<lambda>r. int (cont_px r))
                 (map (\<lambda>(u, c). \<lparr>classe_y = u, cont_px = c,
                                  porcent_y = percentage c (total_pixels raster_data),
                                  nome_pt_y = legend_name legend_data u,
                                  cor_hex_y = legend_color legend_data u\<rparr>)
                      (counts_filtered raster_data))))"

section \<open>The CSV script: year loop and output\<close>

text \<open>
  \<^verbatim>\<open>base_raster_path\<close> is a format string with one \<^verbatim>\<open>{}\<close>: the text before it and the
  text after it. The year range and the paths are literals of the scripts; the embedding
  takes them as arguments.
\<close>

type_synonym path_template = "string \<times> string"

definition format_path :: "path_template \<Rightarrow> int \<Rightarrow> string" where
  "format_path base_raster_path yr = fst base_raster_path @ str yr @ snd base_raster_path"

text \<open>\<^verbatim>\<open>os.path.exists\<close>.\<close>

definition path_exists :: "filesystem \<Rightarrow> string \<Rightarrow> bool" where
  "path_exists fs p = (fs p \<noteq> None)"

text \<open>
  The loop of lines 80 to 99 over the console and \<^verbatim>\<open>all_dataframes\<close>. A missing file
  prints a notice and the year is skipped; an exception of the tabulation is caught,
  printed, and the year is skipped.
\<close>

fun csv_year_loop ::
  "filesystem \<Rightarrow> path_template \<Rightarrow> legend \<Rightarrow> int list \<Rightarrow>
   notice list \<times> csv_row list list \<Rightarrow> notice list \<times> csv_row list list" where
  "csv_year_loop fs base_raster_path legend_data [] s = s"
| "csv_year_loop fs base_raster_path legend_data (yr # yrs) (console, all_dataframes) =
     (let raster_path = format_path base_raster_path yr in
      if \<not> path_exists fs raster_path then
        csv_year_loop fs base_raster_path legend_data yrs
          (console @ [FileNotFound raster_path], all_dataframes)
      else
        (case process_raster_for_csv fs raster_path yr legend_data of
           Inr df_ano \<Rightarrow>
             csv_year_loop fs base_raster_path legend_data yrs
               (console @ [ProcessingYear yr, YearProcessed yr (sum_list (map num_px df_ano)),
                           ClassesFound (length df_ano)],
                all_dataframes @ [df_ano])
         | Inl e \<Rightarrow>
             csv_year_loop fs base_raster_path legend_data yrs
               (console @ [ProcessingYear yr, YearFailed yr e], all_dataframes)))"

text \<open>
  \<^verbatim>\<open>pd.concat\<close> and \<^verbatim>\<open>sort_values(['ano', 'num_px'], ascending=[True, False])\<close>: a
  lexicographic sort, rows with equal keys in their previous order.
\<close>

definition final_df :: "csv_row list list \<Rightarrow> csv_row list" where
  "final_df all_dataframes = sort_key (\<lambda>r. (ano r, - int (num_px r))) (concat all_dataframes)"

text \<open>
  \<^verbatim>\<open>to_csv(index=False)\<close>: the header line, then one line per row with the cells in the
  order of the columns of the data frame (lines 55 to 60).
\<close>

datatype cell = IntCell int | FloatCell rat

type_synonym csv_file = "string list \<times> cell list list"

definition to_csv :: "csv_row list \<Rightarrow> csv_file" where
  "to_csv df =
     ([''ano'', ''classe'', ''num_px'', ''porc_rel''],
      map (\<lambda>r. [IntCell (ano r), IntCell (classe r), IntCell (int (num_px r)),
                 FloatCell (porc_rel r)]) df)"

text \<open>The whole script: the console and the CSV file, if one was written.\<close>

definition csv_main ::
  "filesystem \<Rightarrow> string \<Rightarrow> path_template \<Rightarrow> int list \<Rightarrow> notice list \<times> csv_file option" where
  "csv_main fs json_path base_raster_path years =
     (let (console0, legend_data) = load_legend fs json_path;
          (console, all_dataframes) =
             csv_year_loop fs base_raster_path legend_data years (console0, [])
      in if all_dataframes \<noteq> [] then
           (console @ [CsvSaved], Some (to_csv (final_df all_dataframes)))
         else (console @ [NoDataProcessed], None))"

section \<open>The chart script: unified table and animation\<close>

record unified_row =
  year :: int
  classe_u :: int
  porcent :: rat
  nome_pt :: string
  cor_hex :: string
  rank :: int

text \<open>\<^verbatim>\<open>xs.index(x)\<close>, called only behind \<^verbatim>\<open>x in xs\<close>.\<close>

fun index :: "'a list \<Rightarrow> 'a \<Rightarrow> nat" where
  "index [] x = 0"
| "index (y # ys) x = (if y = x then 0 else Suc (index ys x))"

text \<open>
  The set \<^verbatim>\<open>all_classes\<close> of lines 117 to 119. Python iterates a set in an order of its
  own, the same in every pass while the set is unchanged; the embedding iterates it as a
  duplicate-free list.
\<close>

definition all_classes :: "year_row list list \<Rightarrow> int \<Rightarrow> int list" where
  "all_classes dataframes top_n =
     remdups (concat (map (\<lambda>df. map classe_y (head top_n df)) dataframes))"

text \<open>
  The search of lines 144 to 156: the first row of the class in the first data frame that
  has the class, or nothing.
\<close>

fun find_other_row :: "year_row list list \<Rightarrow> int \<Rightarrow> year_row option" where
  "find_other_row [] cls = None"
| "find_other_row (other_df # rest) cls =
     (if cls \<in> set (map classe_y other_df) then find (\<lambda>r. classe_y r = cls) other_df
      else find_other_row rest cls)"

text \<open>The body of the inner loop (lines 129 to 167): the row of one year and one class.\<close>

definition unified_entry ::
  "year_row list list \<Rightarrow> int \<Rightarrow> int \<Rightarrow> year_row list \<Rightarrow> int \<Rightarrow> unified_row" where
  "unified_entry dataframes top_n yr df cls =
     (let top_classes = map classe_y (head top_n df) in
      case find (\<lambda>r. classe_y r = cls) df of
        Some row \<Rightarrow>
          \<lparr>year = yr, classe_u = cls, porcent = porcent_y row, nome_pt = nome_pt_y row,
           cor_hex = cor_hex_y row,
           rank = (if cls \<in> set top_classes then int (index top_classes cls) + 1
                   else top_n + 1)\<rparr>
      | None \<Rightarrow>
          (case find_other_row dataframes cls of
             Some other_row \<Rightarrow>
               \<lparr>year = yr, classe_u = cls, porcent = 0, nome_pt = nome_pt_y other_row,
                cor_hex = cor_hex_y other_row, rank = top_n + 1\<rparr>
           | None \<Rightarrow>
               \<lparr>year = yr, classe_u = cls, porcent = 0, nome_pt = ''Classe '' @ str cls,
                cor_hex = ''#808080'', rank = top_n + 1\<rparr>))"

definition create_unified_dataframe ::
  "year_row list list \<Rightarrow> int list \<Rightarrow> int \<Rightarrow> unified_row list" where
  "create_unified_dataframe dataframes years top_n =
     concat (map (\<lambda>(yr, df). map (unified_entry dataframes top_n yr df)
                                  (all_classes dataframes top_n))
                 (zip years dataframes))"

subsection \<open>Frames\<close>

text \<open>
  Lines 189 to 198: every year but the last, each followed by its
  \<^verbatim>\<open>frames_per_year - 1\<close> fractional years, then the last year (\<^verbatim>\<open>years[-1]\<close> raises on
  an empty list).
\<close>

definition all_years :: "int list \<Rightarrow> int \<Rightarrow> exn + rat list" where
  "all_years years frames_per_year =
     (if years = [] then Inl IndexError
      else Inr (concat (map (\<lambda>y. of_int y #
                                  map (\<lambda>j. of_int y + of_int j * (1 / of_int frames_per_year))
                                      [1..frames_per_year - 1])
                            (butlast years))
                @ [of_int (last years)]))"

text \<open>Lines 220 to 224: the row of one class of the previous year, interpolated.\<close>

definition interpolate_row :: "unified_row list \<Rightarrow> rat \<Rightarrow> unified_row \<Rightarrow> unified_row" where
  "interpolate_row data_next alpha row =
     (case find (\<lambda>r. classe_u r = classe_u row) data_next of
        Some next_row \<Rightarrow>
          row\<lparr>porcent := porcent row * (1 - alpha) + porcent next_row * alpha\<rparr>
      | None \<Rightarrow> row)"

text \<open>The body of the loop of lines 202 to 226: the data of one frame.\<close>

definition frame_data :: "int list \<Rightarrow> unified_row list \<Rightarrow> rat \<Rightarrow> unified_row list" where
  "frame_data years unified_df yr =
     (if yr \<in> set (map of_int years) then filter (\<lambda>r. of_int (year r) = yr) unified_df
      else
        (let year_prev = py_int yr;
             year_next = year_prev + 1;
             data_prev = filter (\<lambda>r. year r = year_prev) unified_df;
             data_next = filter (\<lambda>r. year r = year_next) unified_df;
             alpha = yr - of_int year_prev
         in map (interpolate_row data_next alpha) data_prev))"

text \<open>
  \<^verbatim>\<open>interpolated_data\<close> paired with \<^verbatim>\<open>all_years\<close>. A unified table built from no
  row at all has no column \<^verbatim>\<open>year\<close>, and selecting it raises.
\<close>

definition interpolated_data ::
  "int list \<Rightarrow> unified_row list \<Rightarrow> int \<Rightarrow> exn + (rat \<times> unified_row list) list" where
  "interpolated_data years unified_df frames_per_year =
     (case all_years years frames_per_year of
        Inl e \<Rightarrow> Inl e
      | Inr ys \<Rightarrow>
          if unified_df = [] then Inl KeyError
          else Inr (map (\<lambda>y. (y, frame_data years unified_df y)) ys))"

text \<open>
  \<^verbatim>\<open>update(frame)\<close>: the rows drawn as bars (the \<^verbatim>\<open>top_n\<close> largest percentages) and the
  year of the title. Drawing itself is not modelled.
\<close>

record frame =
  title_year :: int
  bars :: "unified_row list"

definition update :: "int \<Rightarrow> rat \<times> unified_row list \<Rightarrow> frame" where
  "update top_n f =
     \<lparr>title_year = py_int (fst f), bars = head top_n (sort_values_desc porcent (snd f))\<rparr>"

definition create_smooth_animation ::
  "int list \<Rightarrow> unified_row list \<Rightarrow> int \<Rightarrow> int \<Rightarrow> exn + frame list" where
  "create_smooth_animation years unified_df top_n frames_per_year =
     (case interpolated_data years unified_df frames_per_year of
        Inl e \<Rightarrow> Inl e
      | Inr frames \<Rightarrow> Inr (map (update top_n) frames))"

subsection \<open>The year loop and the whole script\<close>

text \<open>
  Lines 297 to 310. A missing file prints a notice and the year is skipped; an exception
  of the tabulation is not caught and ends the script.
\<close>

fun chart_year_loop ::
  "filesystem \<Rightarrow> path_template \<Rightarrow> legend \<Rightarrow> int list \<Rightarrow>
   notice list \<times> year_row list list \<Rightarrow> exn + notice list \<times> year_row list list" where
  "chart_year_loop fs base_raster_path legend_data [] s = Inr s"
| "chart_year_loop fs base_raster_path legend_data (yr # yrs) (console, dataframes) =
     (let raster_path = format_path base_raster_path yr in
      if \<not> path_exists fs raster_path then
        chart_year_loop fs base_raster_path legend_data yrs
          (console @ [FileNotFound raster_path], dataframes)
      else
        (case read_raster_and_get_value_counts fs raster_path legend_data of
           Inl e \<Rightarrow> Inl e
         | Inr df_resultado \<Rightarrow>
             chart_year_loop fs base_raster_path legend_data yrs
               (console @ [ProcessingYear yr,
                           YearProcessed yr (sum_list (map cont_px df_resultado)),
                           TopClasses (map nome_pt_y (head 5 df_resultado))],
                dataframes @ [df_resultado])))"

record chart_run =
  chart_console :: "notice list"
  chart_dataframes :: "year_row list list"
  chart_unified_df :: "unified_row list"
  chart_ani :: "frame list"

text \<open>Lines 291 to 318, with \<^verbatim>\<open>top_n=5\<close> and \<^verbatim>\<open>frames_per_year=10\<close>.\<close>

definition chart_main ::
  "filesystem \<Rightarrow> string \<Rightarrow> path_template \<Rightarrow> int list \<Rightarrow> exn + chart_run" where
  "chart_main fs json_path base_raster_path years =
     (let (console0, legend_data) = load_legend fs json_path in
      case chart_year_loop fs base_raster_path legend_data years (console0, []) of
        Inl e \<Rightarrow> Inl e
      | Inr (console, dataframes) \<Rightarrow>
          (let unified_df = create_unified_dataframe dataframes years 5 in
           case create_smooth_animation years unified_df 5 10 of
             Inl e \<Rightarrow> Inl e
           | Inr ani \<Rightarrow>
               Inr \<lparr>chart_console = console, chart_dataframes = dataframes,
                    chart_unified_df = unified_df, chart_ani = ani\<rparr>))"

section \<open>Facts about the library primitives and the tabulation\<close>




lemma set_sort_values_desc: "set (sort_values_desc col df) = set df"
  by (simp add: sort_values_desc_def)

lemma length_sort_values_desc: "length (sort_values_desc col df) = length df"
  by (simp add: sort_values_desc_def)

lemma set_np_unique:
  "set (np_unique raster_data) =
     (\<lambda>v. (v, count_list (concat raster_data) v)) ` set (concat raster_data)"
  by (simp add: np_unique_def)

lemma counts_filtered_iff:
  "(u, c) \<in> set (counts_filtered raster_data) \<longleftrightarrow>
     u \<in> set (concat raster_data) \<and> u \<noteq> 0 \<and> c = count_list (concat raster_data) u"
  unfolding counts_filtered_def set_filter set_np_unique by auto

lemma counts_filtered_nonzero: "(u, c) \<in> set (counts_filtered raster_data) \<Longrightarrow> u \<noteq> 0"
  by (simp add: counts_filtered_iff)

lemma counts_filtered_positive: "(u, c) \<in> set (counts_filtered raster_data) \<Longrightarrow> 0 < c"
  using count_list_0_iff [of "concat raster_data" u]
  by (simp add: counts_filtered_iff del: set_concat)


lemma counts_filtered_all_zero:
  assumes "\<forall>v \<in> set (concat raster_data). v = 0"
  shows "counts_filtered raster_data = []"
proof (cases "counts_filtered raster_data")
  case Nil
  then show ?thesis .
next
  case (Cons p ps)
  then have "(fst p, snd p) \<in> set (counts_filtered raster_data)"
    by simp
  then have "fst p \<in> set (concat raster_data) \<and> fst p \<noteq> 0"
    using counts_filtered_iff by blast
  with assms show ?thesis by blast
qed




section \<open>Properties of the tabulation\<close>



text \<open>
  Claim C9. The table of \<^verbatim>\<open>process_raster_for_csv\<close> is the same under any two legends:
  the function never reads its legend argument.
\<close>

theorem csv_ignores_legend:
  "process_raster_for_csv fs raster_path yr legend1 = process_raster_for_csv fs raster_path yr legend2"
  by (simp add: process_raster_for_csv_def)

section \<open>Facts about the rows of the year tables and the CSV script's loop\<close>

lemma process_raster_for_csv_rows:
  assumes "process_raster_for_csv fs raster_path yr legend_data = Inr df" and "r \<in> set df"
  shows "ano r = yr \<and> classe r \<noteq> 0"
proof -
  obtain raster_data where rd: "rasterio_read fs raster_path = Inr raster_data"
    using assms(1) by (auto simp: process_raster_for_csv_def split: sum.splits)
  then have "r \<in> (\<lambda>(u, c). \<lparr>ano = yr, classe = u, num_px = c,
                 porc_rel = percentage c (total_pixels raster_data)\<rparr>)
               ` set (counts_filtered raster_data)"
    using assms by (auto simp: process_raster_for_csv_def set_sort_values_desc)
  then obtain u c where "(u, c) \<in> set (counts_filtered raster_data)"
    and "r = \<lparr>ano = yr, classe = u, num_px = c,
              porc_rel = percentage c (total_pixels raster_data)\<rparr>"
    by auto
  then show ?thesis
    using counts_filtered_nonzero by simp
qed

lemma read_raster_rows:
  assumes "read_raster_and_get_value_counts fs raster_path legend_data = Inr df"
    and "r \<in> set df"
  shows "classe_y r \<noteq> 0 \<and> nome_pt_y r = legend_name legend_data (classe_y r)
         \<and> cor_hex_y r = legend_color legend_data (classe_y r)"
proof -
  obtain raster_data where rd: "rasterio_read fs raster_path = Inr raster_data"
    using assms(1) by (auto simp: read_raster_and_get_value_counts_def split: sum.splits)
  then have "r \<in> (\<lambda>(u, c). \<lparr>classe_y = u, cont_px = c,
                 porcent_y = percentage c (total_pixels raster_data),
                 nome_pt_y = legend_name legend_data u,
                 cor_hex_y = legend_color legend_data u\<rparr>)
               ` set (counts_filtered raster_data)"
    using assms by (auto simp: read_raster_and_get_value_counts_def set_sort_values_desc)
  then obtain u c where "(u, c) \<in> set (counts_filtered raster_data)"
    and "r = \<lparr>classe_y = u, cont_px = c,
                 porcent_y = percentage c (total_pixels raster_data),
                 nome_pt_y = legend_name legend_data u,
                 cor_hex_y = legend_color legend_data u\<rparr>"
    by auto
  then show ?thesis
    using counts_filtered_nonzero by simp
qed

text \<open>The rows the loop collects come from years of the list whose file exists.\<close>

lemma csv_year_loop_rows:
  assumes "csv_year_loop fs base legend_data years (console, dfs) = (console', dfs')"
    and "df \<in> set dfs'"
  shows "df \<in> set dfs \<or>
         (\<exists>yr \<in> set years. path_exists fs (format_path base yr) \<and>
            process_raster_for_csv fs (format_path base yr) yr legend_data = Inr df)"
  using assms
proof (induction years arbitrary: console dfs)
  case Nil
  then show ?case by simp
next
  case (Cons yr yrs)
  show ?case
  proof (cases "path_exists fs (format_path base yr)")
    case False
    with Cons.prems have "csv_year_loop fs base legend_data yrs
        (console @ [FileNotFound (format_path base yr)], dfs) = (console', dfs')"
      by simp
    from Cons.IH [OF this Cons.prems(2)] show ?thesis by auto
  next
    case True
    show ?thesis
    proof (cases "process_raster_for_csv fs (format_path base yr) yr legend_data")
      case (Inl e)
      with True Cons.prems have "csv_year_loop fs base legend_data yrs
          (console @ [ProcessingYear yr, YearFailed yr e], dfs) = (console', dfs')"
        by simp
      from Cons.IH [OF this Cons.prems(2)] show ?thesis by auto
    next
      case (Inr df_ano)
      with True Cons.prems have "csv_year_loop fs base legend_data yrs
          (console @ [ProcessingYear yr, YearProcessed yr (sum_list (map num_px df_ano)),
                      ClassesFound (length df_ano)], dfs @ [df_ano]) = (console', dfs')"
        by simp
      from Cons.IH [OF this Cons.prems(2)] show ?thesis
        using True Inr by auto
    qed
  qed
qed

lemma csv_year_loop_console_mono:
  "set console \<subseteq> set (fst (csv_year_loop fs base legend_data years (console, dfs)))"
proof (induction years arbitrary: console dfs)
  case Nil
  then show ?case by simp
next
  case (Cons yr yrs)
  show ?case
  proof (cases "path_exists fs (format_path base yr)")
    case False
    then show ?thesis
      using Cons.IH [of "console @ [FileNotFound (format_path base yr)]" dfs] by simp
  next
    case True
    show ?thesis
    proof (cases "process_raster_for_csv fs (format_path base yr) yr legend_data")
      case (Inl e)
      then show ?thesis
        using True Cons.IH [of "console @ [ProcessingYear yr, YearFailed yr e]" dfs] by simp
    next
      case (Inr df_ano)
      then show ?thesis
        using True
          Cons.IH [of "console @ [ProcessingYear yr,
             YearProcessed yr (sum_list (map num_px df_ano)), ClassesFound (length df_ano)]"
             "dfs @ [df_ano]"]
        by simp
    qed
  qed
qed

lemma csv_year_loop_notice:
  assumes "yr \<in> set years" and "\<not> path_exists fs (format_path base yr)"
  shows "FileNotFound (format_path base yr)
           \<in> set (fst (csv_year_loop fs base legend_data years (console, dfs)))"
  using assms
proof (induction years arbitrary: console dfs)
  case Nil
  then show ?case by simp
next
  case (Cons y yrs)
  show ?case
  proof (cases "y = yr")
    case True
    have "FileNotFound (format_path base yr)
            \<in> set (console @ [FileNotFound (format_path base yr)])"
      by simp
    then show ?thesis
      using True Cons.prems(2)
        csv_year_loop_console_mono [of "console @ [FileNotFound (format_path base yr)]"
          fs base legend_data yrs dfs]
      by auto
  next
    case False
    then have in_rest: "yr \<in> set yrs"
      using Cons.prems(1) by simp
    show ?thesis
    proof (cases "path_exists fs (format_path base y)")
      case False
      then show ?thesis
        using Cons.IH [OF in_rest Cons.prems(2)] by simp
    next
      case True
      then show ?thesis
        using Cons.IH [OF in_rest Cons.prems(2)] by (simp split: sum.splits)
    qed
  qed
qed

lemma csv_main_cases:
  obtains console dfs where
    "csv_year_loop fs base (snd (load_legend fs json_path)) years
       (fst (load_legend fs json_path), []) = (console, dfs)"
    "csv_main fs json_path base years =
       (if dfs \<noteq> [] then (console @ [CsvSaved], Some (to_csv (final_df dfs)))
        else (console @ [NoDataProcessed], None))"
proof -
  obtain console dfs where l: "csv_year_loop fs base (snd (load_legend fs json_path)) years
       (fst (load_legend fs json_path), []) = (console, dfs)"
    by (cases "csv_year_loop fs base (snd (load_legend fs json_path)) years
       (fst (load_legend fs json_path), [])") auto
  then have "csv_main fs json_path base years =
       (if dfs \<noteq> [] then (console @ [CsvSaved], Some (to_csv (final_df dfs)))
        else (console @ [NoDataProcessed], None))"
    by (simp add: csv_main_def split_beta)
  with l show ?thesis using that by blast
qed

lemma set_final_df: "set (final_df dfs) = set (concat dfs)"
  by (simp add: final_df_def)

lemma sorted_final_df:
  "sorted_wrt (\<lambda>a b. ano a < ano b \<or> (ano a = ano b \<and> num_px b \<le> num_px a)) (final_df dfs)"
proof -
  have "sorted (map (\<lambda>r. (ano r, - int (num_px r))) (final_df dfs))"
    unfolding final_df_def by (rule sorted_sort_key)
  then have "sorted_wrt (\<lambda>a b. (ano a, - int (num_px a)) \<le> (ano b, - int (num_px b)))
               (final_df dfs)"
    by (simp add: sorted_map)
  then show ?thesis
    by (rule sorted_wrt_mono_rel [rotated]) (auto simp: less_eq_prod_def)
qed

lemma csv_main_rows:
  assumes "snd (csv_main fs json_path base years) = Some f" and "r \<in> set (snd f)"
  shows "\<exists>yr \<in> set years. \<exists>df row. path_exists fs (format_path base yr) \<and>
           process_raster_for_csv fs (format_path base yr) yr (snd (load_legend fs json_path))
             = Inr df \<and>
           row \<in> set df \<and>
           r = [IntCell (ano row), IntCell (classe row), IntCell (int (num_px row)),
                FloatCell (porc_rel row)]"
proof -
  obtain console dfs where
    l: "csv_year_loop fs base (snd (load_legend fs json_path)) years
          (fst (load_legend fs json_path), []) = (console, dfs)" and
    m: "csv_main fs json_path base years =
          (if dfs \<noteq> [] then (console @ [CsvSaved], Some (to_csv (final_df dfs)))
           else (console @ [NoDataProcessed], None))"
    by (rule csv_main_cases)
  from m assms(1) have f: "f = to_csv (final_df dfs)"
    by (simp split: if_splits)
  with assms(2) obtain row where row: "row \<in> set (concat dfs)"
    and r: "r = [IntCell (ano row), IntCell (classe row), IntCell (int (num_px row)),
                FloatCell (porc_rel row)]"
    by (auto simp: to_csv_def set_final_df simp del: set_concat)
  from row obtain df where df: "df \<in> set dfs" "row \<in> set df"
    by auto
  from csv_year_loop_rows [OF l df(1)] df(2) r show ?thesis
    by auto
qed

section \<open>Properties of the CSV output\<close>

text \<open>
  Claim C4. When the CSV script writes its file, the header is
  \<^verbatim>\<open>ano, classe, num_px, porc_rel\<close>, every line holds the cells of one row in that order,
  and the rows are sorted by \<^verbatim>\<open>ano\<close> ascending and, within one year, by \<^verbatim>\<open>num_px\<close>
  descending.
\<close>

theorem csv_sorted_columns:
  assumes "snd (csv_main fs json_path base years) = Some f"
  shows "\<exists>df :: csv_row list. f = ([''ano'', ''classe'', ''num_px'', ''porc_rel''],
                    map (\<lambda>r. [IntCell (ano r), IntCell (classe r), IntCell (int (num_px r)),
                               FloatCell (porc_rel r)]) df)
              \<and> sorted_wrt (\<lambda>a b. ano a < ano b \<or> (ano a = ano b \<and> num_px b \<le> num_px a)) df"
proof -
  obtain console dfs where
    m: "csv_main fs json_path base years =
          (if dfs \<noteq> [] then (console @ [CsvSaved], Some (to_csv (final_df dfs)))
           else (console @ [NoDataProcessed], None))"
    by (rule csv_main_cases)
  from m assms have f: "f = to_csv (final_df dfs)"
    by (simp split: if_splits)
  show ?thesis
    by (rule exI [of _ "final_df dfs"]) (simp add: f to_csv_def sorted_final_df)
qed

theorem csv_sorted_columns_witness:
  "snd (csv_main [''c_1985.tif'' \<mapsto> RasterFile [[3, 3, 4]],
                  ''c_1987.tif'' \<mapsto> RasterFile [[4, 0], [4, 3]]]
          ''legend.json'' (''c_'', ''.tif'') [1985, 1986, 1987])
     = Some ([''ano'', ''classe'', ''num_px'', ''porc_rel''],
             [[IntCell 1985, IntCell 3, IntCell 2, FloatCell (200 / 3)],
              [IntCell 1985, IntCell 4, IntCell 1, FloatCell (100 / 3)],
              [IntCell 1987, IntCell 4, IntCell 2, FloatCell (200 / 3)],
              [IntCell 1987, IntCell 3, IntCell 1, FloatCell (100 / 3)]])
   \<and> (\<exists>df :: csv_row list.
         ([''ano'', ''classe'', ''num_px'', ''porc_rel''],
          [[IntCell 1985, IntCell 3, IntCell 2, FloatCell (200 / 3)],
           [IntCell 1985, IntCell 4, IntCell 1, FloatCell (100 / 3)],
           [IntCell 1987, IntCell 4, IntCell 2, FloatCell (200 / 3)],
           [IntCell 1987, IntCell 3, IntCell 1, FloatCell (100 / 3)]])
         = ([''ano'', ''classe'', ''num_px'', ''porc_rel''],
            map (\<lambda>r. [IntCell (ano r), IntCell (classe r), IntCell (int (num_px r)),
                       FloatCell (porc_rel r)]) df)
       \<and> sorted_wrt (\<lambda>a b. ano a < ano b \<or> (ano a = ano b \<and> num_px b \<le> num_px a)) df)"
proof -
  let ?run = "csv_main [''c_1985.tif'' \<mapsto> RasterFile [[3, 3, 4]],
                    ''c_1987.tif'' \<mapsto> RasterFile [[4, 0], [4, 3]]]
            ''legend.json'' (''c_'', ''.tif'') [1985, 1986, 1987]"
  let ?f = "([''ano'', ''classe'', ''num_px'', ''porc_rel''],
    [[IntCell 1985, IntCell 3, IntCell 2, FloatCell (200 / 3)],
     [IntCell 1985, IntCell 4, IntCell 1, FloatCell (100 / 3)],
     [IntCell 1987, IntCell 4, IntCell 2, FloatCell (200 / 3)],
     [IntCell 1987, IntCell 3, IntCell 1, FloatCell (100 / 3)]])"
  have e: "snd ?run = Some ?f"
    by code_simp
  show ?thesis
    using e csv_sorted_columns [OF e] by (rule conjI)
qed

text \<open>
  Claim C6. A year of the range whose formatted raster path does not exist is skipped
  with a printed notice, and no line of the CSV file has that year in its first column
  (the year is not zero-filled).
\<close>

theorem missing_year_skipped:
  assumes "yr \<in> set years" and "\<not> path_exists fs (format_path base yr)"
  shows "FileNotFound (format_path base yr) \<in> set (fst (csv_main fs json_path base years))
       \<and> (case snd (csv_main fs json_path base years) of
            None \<Rightarrow> True
          | Some f \<Rightarrow> list_all (\<lambda>row. row ! 0 \<noteq> IntCell yr) (snd f))"
proof
  obtain console dfs where
    l: "csv_year_loop fs base (snd (load_legend fs json_path)) years
          (fst (load_legend fs json_path), []) = (console, dfs)" and
    m: "csv_main fs json_path base years =
          (if dfs \<noteq> [] then (console @ [CsvSaved], Some (to_csv (final_df dfs)))
           else (console @ [NoDataProcessed], None))"
    by (rule csv_main_cases)
  have "FileNotFound (format_path base yr) \<in> set console"
    using csv_year_loop_notice [OF assms, of "snd (load_legend fs json_path)"
        "fst (load_legend fs json_path)" "[]"] l
    by simp
  then show "FileNotFound (format_path base yr) \<in> set (fst (csv_main fs json_path base years))"
    by (simp add: m)
next
  show "case snd (csv_main fs json_path base years) of
          None \<Rightarrow> True
        | Some f \<Rightarrow> list_all (\<lambda>row. row ! 0 \<noteq> IntCell yr) (snd f)"
  proof (cases "snd (csv_main fs json_path base years)")
    case None
    then show ?thesis by simp
  next
    case (Some f)
    have "row ! 0 \<noteq> IntCell yr" if in_file: "row \<in> set (snd f)" for row
    proof -
      obtain y df r where y: "path_exists fs (format_path base y)"
        and p: "process_raster_for_csv fs (format_path base y) y
                 (snd (load_legend fs json_path)) = Inr df"
        and r: "r \<in> set df"
        and row: "row = [IntCell (ano r), IntCell (classe r), IntCell (int (num_px r)),
                FloatCell (porc_rel r)]"
        using csv_main_rows [OF Some in_file] by blast
      have "ano r = y"
        using process_raster_for_csv_rows [OF p r] by simp
      moreover have "y \<noteq> yr"
        using y assms(2) by auto
      ultimately show ?thesis
        by (simp add: row)
    qed
    then show ?thesis
      using Some by (simp add: list_all_iff)
  qed
qed

theorem missing_year_skipped_witness:
  "\<not> path_exists [''c_1985.tif'' \<mapsto> RasterFile [[3, 3, 4]],
                   ''c_1987.tif'' \<mapsto> RasterFile [[4, 0], [4, 3]]]
        (format_path (''c_'', ''.tif'') 1986)
   \<and> FileNotFound (format_path (''c_'', ''.tif'') 1986)
       \<in> set (fst (csv_main [''c_1985.tif'' \<mapsto> RasterFile [[3, 3, 4]],
                              ''c_1987.tif'' \<mapsto> RasterFile [[4, 0], [4, 3]]]
                      ''legend.json'' (''c_'', ''.tif'') [1985, 1986, 1987]))
   \<and> (case snd (csv_main [''c_1985.tif'' \<mapsto> RasterFile [[3, 3, 4]],
                              ''c_1987.tif'' \<mapsto> RasterFile [[4, 0], [4, 3]]]
                      ''legend.json'' (''c_'', ''.tif'') [1985, 1986, 1987]) of
         None \<Rightarrow> True
       | Some f \<Rightarrow> list_all (\<lambda>row. row ! 0 \<noteq> IntCell 1986) (snd f))"
proof -
  let ?fs = "[''c_1985.tif'' \<mapsto> RasterFile [[3, 3, 4]],
              ''c_1987.tif'' \<mapsto> RasterFile [[4, 0], [4, 3]]]"
  have n: "\<not> path_exists ?fs (format_path (''c_'', ''.tif'') 1986)"
    by code_simp
  have y: "(1986::int) \<in> set [1985, 1986, 1987]"
    by simp
  show ?thesis
    using n missing_year_skipped [OF y n, of "''legend.json''"] by blast
qed

section \<open>Properties of the legend\<close>

text \<open>
  Claim C8. When reading or parsing the legend file fails, \<^verbatim>\<open>load_legend\<close> prints the
  error and returns the empty dictionary (it returns, it raises nothing). In the chart
  script's year table every class code whose string is not a key of the legend gets the
  placeholder name (\<^verbatim>\<open>Classe \<close>, the code, \<^verbatim>\<open> (n\<close>, the code point \<^verbatim>\<open>U+00E3\<close>,
  \<^verbatim>\<open>o encontrada)\<close>) and the colour \<^verbatim>\<open>#808080\<close>; after a failed load that is every row.
\<close>

theorem legend_failure_placeholders:
  "(json_load fs json_path = Inl e \<longrightarrow>
      load_legend fs json_path = ([LegendLoadFailed e], Map.empty))
   \<and> (read_raster_and_get_value_counts fs raster_path legend_data = Inr df \<longrightarrow>
        list_all (\<lambda>r. legend_data (str (classe_y r)) = None \<longrightarrow>
                    nome_pt_y r = ''Classe '' @ str (classe_y r) @ '' (n'' @ [CHR 0xE3]
                                    @ ''o encontrada)''
                    \<and> cor_hex_y r = ''#808080'') df)
   \<and> (json_load fs json_path = Inl e \<and>
      read_raster_and_get_value_counts fs raster_path (snd (load_legend fs json_path)) = Inr df'
      \<longrightarrow> list_all (\<lambda>r. nome_pt_y r = ''Classe '' @ str (classe_y r) @ '' (n'' @ [CHR 0xE3]
                                    @ ''o encontrada)''
                    \<and> cor_hex_y r = ''#808080'') df')"
proof (intro conjI impI)
  assume "json_load fs json_path = Inl e"
  then show "load_legend fs json_path = ([LegendLoadFailed e], Map.empty)"
    by (simp add: load_legend_def)
next
  assume "read_raster_and_get_value_counts fs raster_path legend_data = Inr df"
  then show "list_all (\<lambda>r. legend_data (str (classe_y r)) = None \<longrightarrow>
                    nome_pt_y r = ''Classe '' @ str (classe_y r) @ '' (n'' @ [CHR 0xE3]
                                    @ ''o encontrada)''
                    \<and> cor_hex_y r = ''#808080'') df"
    unfolding list_all_iff
    by (auto dest!: read_raster_rows simp: legend_name_def legend_color_def placeholder_name_def)
next
  assume a: "json_load fs json_path = Inl e \<and>
      read_raster_and_get_value_counts fs raster_path (snd (load_legend fs json_path)) = Inr df'"
  then have "snd (load_legend fs json_path) = Map.empty"
    by (simp add: load_legend_def)
  with a have "read_raster_and_get_value_counts fs raster_path Map.empty = Inr df'"
    by simp
  then show "list_all (\<lambda>r. nome_pt_y r = ''Classe '' @ str (classe_y r) @ '' (n'' @ [CHR 0xE3]
                                    @ ''o encontrada)''
                    \<and> cor_hex_y r = ''#808080'') df'"
    unfolding list_all_iff
    by (auto dest!: read_raster_rows simp: legend_name_def legend_color_def placeholder_name_def)
qed

theorem legend_failure_placeholders_witness:
  "load_legend [''r.tif'' \<mapsto> RasterFile [[0, 0, 3], [3, 3, 4]], ''legend.json'' \<mapsto> OtherFile]
     ''legend.json'' = ([LegendLoadFailed JSONDecodeError], Map.empty)
   \<and> read_raster_and_get_value_counts
        [''r.tif'' \<mapsto> RasterFile [[0, 0, 3], [3, 3, 4]], ''legend.json'' \<mapsto> OtherFile] ''r.tif''
        [''3'' \<mapsto> \<lparr>PT = ''Forest'', HEX_COL = ''#006400''\<rparr>]
      = Inr [\<lparr>classe_y = 3, cont_px = 3, porcent_y = 75, nome_pt_y = ''Forest'',
               cor_hex_y = ''#006400''\<rparr>,
             \<lparr>classe_y = 4, cont_px = 1, porcent_y = 25,
               nome_pt_y = ''Classe 4 (n'' @ [CHR 0xE3] @ ''o encontrada)'',
               cor_hex_y = ''#808080''\<rparr>]
   \<and> read_raster_and_get_value_counts
        [''r.tif'' \<mapsto> RasterFile [[0, 0, 3], [3, 3, 4]], ''legend.json'' \<mapsto> OtherFile] ''r.tif''
        (snd (load_legend
           [''r.tif'' \<mapsto> RasterFile [[0, 0, 3], [3, 3, 4]], ''legend.json'' \<mapsto> OtherFile]
           ''legend.json''))
      = Inr [\<lparr>classe_y = 3, cont_px = 3, porcent_y = 75,
               nome_pt_y = ''Classe 3 (n'' @ [CHR 0xE3] @ ''o encontrada)'',
               cor_hex_y = ''#808080''\<rparr>,
             \<lparr>classe_y = 4, cont_px = 1, porcent_y = 25,
               nome_pt_y = ''Classe 4 (n'' @ [CHR 0xE3] @ ''o encontrada)'',
               cor_hex_y = ''#808080''\<rparr>]"
proof -
  let ?fs = "[''r.tif'' \<mapsto> RasterFile [[0, 0, 3], [3, 3, 4]], ''legend.json'' \<mapsto> OtherFile]"
  let ?legend = "[''3'' \<mapsto> \<lparr>PT = ''Forest'', HEX_COL = ''#006400''\<rparr>]"
  let ?df = "[\<lparr>classe_y = 3, cont_px = 3, porcent_y = 75, nome_pt_y = ''Forest'',
               cor_hex_y = ''#006400''\<rparr>,
             \<lparr>classe_y = 4, cont_px = 1, porcent_y = 25,
               nome_pt_y = ''Classe 4 (n'' @ [CHR 0xE3] @ ''o encontrada)'',
               cor_hex_y = ''#808080''\<rparr>]"
  let ?df' = "[\<lparr>classe_y = 3, cont_px = 3, porcent_y = 75,
               nome_pt_y = ''Classe 3 (n'' @ [CHR 0xE3] @ ''o encontrada)'',
               cor_hex_y = ''#808080''\<rparr>,
             \<lparr>classe_y = 4, cont_px = 1, porcent_y = 25,
               nome_pt_y = ''Classe 4 (n'' @ [CHR 0xE3] @ ''o encontrada)'',
               cor_hex_y = ''#808080''\<rparr>]"
  have j: "json_load ?fs ''legend.json'' = Inl JSONDecodeError"
    by (simp add: json_load_def)
  have r: "read_raster_and_get_value_counts ?fs ''r.tif'' ?legend = Inr ?df"
    by code_simp
  have r': "read_raster_and_get_value_counts ?fs ''r.tif''
              (snd (load_legend ?fs ''legend.json'')) = Inr ?df'"
    by code_simp
  show ?thesis
    using legend_failure_placeholders
      [of ?fs "''legend.json''" JSONDecodeError "''r.tif''" ?legend ?df ?df'] j r r'
    by blast
qed

section \<open>Facts about the frame years\<close>



lemma py_int_of_int: "py_int (of_int i) = i"
  by (simp add: py_int_def)



lemma fraction_frame_not_in_years:
  assumes "of_int \<lfloor>y\<rfloor> \<noteq> (y::rat)"
  shows "y \<notin> of_int ` set years"
  using assms by auto

lemma interpolated_data_frame:
  assumes "interpolated_data years unified_df frames_per_year = Inr frames"
    and "(y, rows) \<in> set frames"
  shows "\<exists>ys. all_years years frames_per_year = Inr ys \<and> y \<in> set ys
              \<and> rows = frame_data years unified_df y \<and> unified_df \<noteq> []"
  using assms by (auto simp: interpolated_data_def split: sum.splits if_splits)

lemma year_interpolate_row [simp]: "year (interpolate_row data_next alpha row) = year row"
  and classe_interpolate_row [simp]: "classe_u (interpolate_row data_next alpha row) = classe_u row"
  and nome_interpolate_row [simp]: "nome_pt (interpolate_row data_next alpha row) = nome_pt row"
  and cor_interpolate_row [simp]: "cor_hex (interpolate_row data_next alpha row) = cor_hex row"
  and rank_interpolate_row [simp]: "rank (interpolate_row data_next alpha row) = rank row"
  by (simp_all add: interpolate_row_def split: option.splits)

lemma list_all2_map_self: "(\<And>x. x \<in> set xs \<Longrightarrow> P x (f x)) \<Longrightarrow> list_all2 P xs (map f xs)"
  by (induction xs) simp_all

section \<open>Properties of the animation frames\<close>



text \<open>
  Claim C10. In a frame of a fractional year \<open>y\<close>, every row is a row of the year
  \<^verbatim>\<open>int(y)\<close> of the unified table, in the same order, with \<^verbatim>\<open>year\<close>, \<^verbatim>\<open>classe\<close>,
  \<^verbatim>\<open>nome_pt\<close>, \<^verbatim>\<open>cor_hex\<close> and \<^verbatim>\<open>rank\<close> unchanged: only \<^verbatim>\<open>porcent\<close> may differ. For
  a year from 0 on (the scripts' years are 1985 to 2024) \<^verbatim>\<open>int(y)\<close> is the floor year.
\<close>

theorem fractional_frame_copies_fields:
  assumes "interpolated_data years unified_df frames_per_year = Inr frames"
    and "(y, rows) \<in> set frames"
    and "of_int \<lfloor>y\<rfloor> \<noteq> y"
  shows "list_all2
           (\<lambda>prev row. year row = year prev \<and> classe_u row = classe_u prev
                        \<and> nome_pt row = nome_pt prev \<and> cor_hex row = cor_hex prev
                        \<and> rank row = rank prev \<and> row = prev\<lparr>porcent := porcent row\<rparr>)
           (filter (\<lambda>r. year r = py_int y) unified_df) rows
       \<and> (0 \<le> y \<longrightarrow> py_int y = \<lfloor>y\<rfloor>)"
proof
  have rows: "rows = frame_data years unified_df y"
    using interpolated_data_frame [OF assms(1,2)] by blast
  have "y \<notin> of_int ` set years"
    using assms(3) by (rule fraction_frame_not_in_years)
  then have r: "rows = map (interpolate_row (filter (\<lambda>r. year r = py_int y + 1) unified_df)
                               (y - of_int (py_int y)))
                            (filter (\<lambda>r. year r = py_int y) unified_df)"
    by (simp add: rows frame_data_def Let_def)
  show "list_all2
           (\<lambda>prev row. year row = year prev \<and> classe_u row = classe_u prev
                        \<and> nome_pt row = nome_pt prev \<and> cor_hex row = cor_hex prev
                        \<and> rank row = rank prev \<and> row = prev\<lparr>porcent := porcent row\<rparr>)
           (filter (\<lambda>r. year r = py_int y) unified_df) rows"
    unfolding r
    by (rule list_all2_map_self) (simp add: interpolate_row_def split: option.splits)
next
  show "0 \<le> y \<longrightarrow> py_int y = \<lfloor>y\<rfloor>"
    by (simp add: py_int_def)
qed

theorem fractional_frame_copies_fields_witness:
  "interpolated_data [1985, 1986]
     [\<lparr>year = 1985, classe_u = 3, porcent = 75, nome_pt = ''Forest'', cor_hex = ''#006400'', rank = 1\<rparr>,
      \<lparr>year = 1986, classe_u = 3, porcent = 35, nome_pt = ''Forest'', cor_hex = ''#006400'', rank = 1\<rparr>] 2
     = Inr [(1985, [\<lparr>year = 1985, classe_u = 3, porcent = 75, nome_pt = ''Forest'', cor_hex = ''#006400'', rank = 1\<rparr>]),
            (3971 / 2, [\<lparr>year = 1985, classe_u = 3, porcent = 55, nome_pt = ''Forest'', cor_hex = ''#006400'', rank = 1\<rparr>]),
            (1986, [\<lparr>year = 1986, classe_u = 3, porcent = 35, nome_pt = ''Forest'', cor_hex = ''#006400'', rank = 1\<rparr>])]
   \<and> of_int \<lfloor>3971 / 2 :: rat\<rfloor> \<noteq> (3971 / 2 :: rat)
   \<and> list_all2
        (\<lambda>prev row. year row = year prev \<and> classe_u row = classe_u prev
                     \<and> nome_pt row = nome_pt prev \<and> cor_hex row = cor_hex prev
                     \<and> rank row = rank prev \<and> row = prev\<lparr>porcent := porcent row\<rparr>)
        (filter (\<lambda>r. year r = py_int (3971 / 2))
           [\<lparr>year = 1985, classe_u = 3, porcent = 75, nome_pt = ''Forest'', cor_hex = ''#006400'', rank = 1\<rparr>,
      \<lparr>year = 1986, classe_u = 3, porcent = 35, nome_pt = ''Forest'', cor_hex = ''#006400'', rank = 1\<rparr>])
        [\<lparr>year = 1985, classe_u = 3, porcent = 55, nome_pt = ''Forest'', cor_hex = ''#006400'', rank = 1\<rparr>]
   \<and> py_int (3971 / 2) = \<lfloor>3971 / 2 :: rat\<rfloor>"
proof -
  let ?T = "[\<lparr>year = 1985, classe_u = 3, porcent = 75, nome_pt = ''Forest'', cor_hex = ''#006400'', rank = 1\<rparr>,
      \<lparr>year = 1986, classe_u = 3, porcent = 35, nome_pt = ''Forest'', cor_hex = ''#006400'', rank = 1\<rparr>]"
  let ?frames = "[(1985, [\<lparr>year = 1985, classe_u = 3, porcent = 75, nome_pt = ''Forest'', cor_hex = ''#006400'', rank = 1\<rparr>]),
            (3971 / 2, [\<lparr>year = 1985, classe_u = 3, porcent = 55, nome_pt = ''Forest'', cor_hex = ''#006400'', rank = 1\<rparr>]),
            (1986, [\<lparr>year = 1986, classe_u = 3, porcent = 35, nome_pt = ''Forest'', cor_hex = ''#006400'', rank = 1\<rparr>])]"
  have e: "interpolated_data [1985, 1986] ?T 2 = Inr ?frames"
    by code_simp
  have m: "(3971 / 2, [\<lparr>year = 1985, classe_u = 3, porcent = 55, nome_pt = ''Forest'', cor_hex = ''#006400'', rank = 1\<rparr>]) \<in> set ?frames"
    by simp
  have fl: "\<lfloor>3971 / 2 :: rat\<rfloor> = 1985"
    by (rule floor_unique) simp_all
  have f: "of_int \<lfloor>3971 / 2 :: rat\<rfloor> \<noteq> (3971 / 2 :: rat)"
    by (simp add: fl)
  have p: "(0 :: rat) \<le> 3971 / 2"
    by simp
  show ?thesis
    using e f p fractional_frame_copies_fields [OF e m f]
    by blast
qed

end
